theory Spec2Isabelle
  imports Main "HOL-Library.Word"
begin

section \<open>Zone transfers (xfr.go): data model\<close>

text \<open>
  The file \<^verbatim>\<open>xfr.go\<close> of package \<^verbatim>\<open>dns\<close> holds the inbound transfer loop
  \<^verbatim>\<open>InAxfr\<close>, the outbound responder \<^verbatim>\<open>Out\<close>, and the message reader and writer of
  a \<^verbatim>\<open>Transfer\<close>. The message type, the wire codec, the TSIG functions and the network
  are declared elsewhere in the package; the model keeps of them what \<^verbatim>\<open>xfr.go\<close> touches.
\<close>

type_synonym byte = "8 word"

text \<open>
  The error values \<^verbatim>\<open>ErrId\<close>, \<^verbatim>\<open>ErrSoa\<close> and \<^verbatim>\<open>ErrSecret\<close> are the three that
  \<^verbatim>\<open>xfr.go\<close> names; every other error (transport, unpacking, signature) is
  \<open>ErrOther\<close> with its text.
\<close>

datatype error = ErrId | ErrSoa | ErrSecret | ErrOther string

record RR_Header =
  Name :: string
  Rrtype :: "16 word"

text \<open>
  \<^verbatim>\<open>RR\<close> is an interface in Go; \<^verbatim>\<open>xfr.go\<close> calls only \<^verbatim>\<open>Header()\<close> on it. The rest
  of a record is kept as opaque bytes.
\<close>

record RR =
  Header :: RR_Header
  Rdata :: "byte list"

record TSIG =
  Hdr :: RR_Header

record Question =
  Qtype :: "16 word"

record Msg =
  MsgId :: "16 word"
  Authoritative :: bool
  Question :: "Question list"
  Answer :: "RR list"
  Extra :: "RR list"

record Envelope =
  RR :: "RR list"
  Error :: "error option"

text \<open>
  A call of the source returns, panics, or never returns because it waits for the peer.
\<close>

datatype 'a outcome = Returns 'a | Panics | Blocks

text \<open>
  The connection. \<open>Incoming\<close> is the script of the peer: the result \<open>(p[:n], err)\<close> of each
  successive \<^verbatim>\<open>Read\<close>; when the script is used up the peer is silent and a \<^verbatim>\<open>Read\<close> does
  not return (\<^verbatim>\<open>xfr.go\<close> sets no deadline; the code that would is commented out).
  \<open>WriteResults\<close> is the script of the results of successive \<^verbatim>\<open>Write\<close> calls (a write
  past its end succeeds) and \<open>Outgoing\<close> the log of what was written.
\<close>

record NetConn =
  Incoming :: "(byte list \<times> error option) list"
  Outgoing :: "byte list list"
  WriteResults :: "error option list"
  Closed :: bool

record Conn = NetConn +
  TsigSecret :: "string \<rightharpoonup> string"
  tsigRequestMAC :: string

record Transfer = Conn +
  DialTimeout :: int
  ReadTimeout :: int
  WriteTimeout :: int
  tsigTimersOnly :: bool

text \<open>
  The functions of the package and of \<^verbatim>\<open>net\<close> that \<^verbatim>\<open>xfr.go\<close> calls and that are
  declared outside it are parameters of the model:
  \<^verbatim>\<open>Msg.Unpack\<close>, \<^verbatim>\<open>Msg.Pack\<close>, \<^verbatim>\<open>Msg.IsTsig\<close> (the TSIG record of a message, or nil),
  \<^verbatim>\<open>TsigVerify\<close>, \<^verbatim>\<open>TsigGenerate\<close>, \<^verbatim>\<open>Msg.SetReply\<close> and \<^verbatim>\<open>net.DialTimeout\<close>.
\<close>

record externals =
  Unpack :: "byte list \<Rightarrow> error + Msg"
  Pack :: "Msg \<Rightarrow> error + byte list"
  IsTsig :: "Msg \<Rightarrow> TSIG option"
  TsigVerify :: "byte list \<Rightarrow> string \<Rightarrow> string \<Rightarrow> bool \<Rightarrow> error option"
  TsigGenerate :: "Msg \<Rightarrow> string \<Rightarrow> string \<Rightarrow> bool \<Rightarrow> byte list \<times> string \<times> error option"
  SetReply :: "Msg \<Rightarrow> Msg \<Rightarrow> Msg"
  DialTimeout_net :: "string \<Rightarrow> int \<Rightarrow> error + NetConn"

text \<open>
  Constants of the package (\<^verbatim>\<open>types.go\<close>, \<^verbatim>\<open>client.go\<close>): the record types of
  RFC 1035 and RFC 1995, and the default timeout of two seconds in nanoseconds that the
  comments of \<^verbatim>\<open>Transfer\<close> give (\<^verbatim>\<open>2 * 1e9\<close>).
\<close>

definition TypeSOA :: "16 word" where "TypeSOA = 6"
definition TypeIXFR :: "16 word" where "TypeIXFR = 251"
definition TypeAXFR :: "16 word" where "TypeAXFR = 252"
definition dnsTimeout :: int where "dnsTimeout = 2 * 10 ^ 9"

section \<open>SOA position tests\<close>

definition isSOAFirst :: "Msg \<Rightarrow> bool" where
  "isSOAFirst msg =
     (if length (Answer msg) > 0 then Rrtype (Header (Answer msg ! 0)) = TypeSOA
      else False)"

definition isSOALast :: "Msg \<Rightarrow> bool" where
  "isSOALast msg =
     (if length (Answer msg) > 0
      then Rrtype (Header (Answer msg ! (length (Answer msg) - 1))) = TypeSOA
      else False)"

section \<open>Reading and writing a message\<close>

text \<open>\<^verbatim>\<open>t.Read(p)\<close>: the next entry of the peer's script, or no return.\<close>

definition Read :: "Transfer \<Rightarrow> (byte list \<times> error option) outcome \<times> Transfer" where
  "Read t =
     (case Incoming t of
        [] \<Rightarrow> (Blocks, t)
      | ev # rest \<Rightarrow> (Returns ev, t\<lparr>Incoming := rest\<rparr>))"

text \<open>\<^verbatim>\<open>t.Write(out)\<close>: logs the bytes; the result is the next entry of \<open>WriteResults\<close>.\<close>

definition Write :: "Transfer \<Rightarrow> byte list \<Rightarrow> error option \<times> Transfer" where
  "Write t out =
     (case WriteResults t of
        [] \<Rightarrow> (None, t\<lparr>Outgoing := Outgoing t @ [out]\<rparr>)
      | r # rs \<Rightarrow> (r, t\<lparr>Outgoing := Outgoing t @ [out], WriteResults := rs\<rparr>))"

text \<open>
  The guard of the TSIG branch in \<^verbatim>\<open>ReadMsg\<close> and \<^verbatim>\<open>WriteMsg\<close> is \<^verbatim>\<open>t != nil\<close>, a test
  of the receiver, which is a \<^verbatim>\<open>*Transfer\<close> that the method has already dereferenced
  (or is about to): it holds on every call that gets there.
\<close>

definition receiver_not_nil :: "Transfer \<Rightarrow> bool" where
  "receiver_not_nil t = True"

text \<open>
  \<^verbatim>\<open>ReadMsg\<close> returns the pair \<^verbatim>\<open>(*Msg, error)\<close>; both may be set
  (\<^verbatim>\<open>return m, ErrSecret\<close>). With \<^verbatim>\<open>ts\<close> nil, \<^verbatim>\<open>ts.Hdr.Name\<close> is a nil dereference.
\<close>

definition ReadMsg ::
  "externals \<Rightarrow> Transfer \<Rightarrow> (Msg option \<times> error option) outcome \<times> Transfer" where
  "ReadMsg x t =
     (case Read t of
        (Blocks, t) \<Rightarrow> (Blocks, t)
      | (Panics, t) \<Rightarrow> (Panics, t)
      | (Returns (p, err), t) \<Rightarrow>
          if err \<noteq> None \<and> length p = 0 then (Returns (None, err), t)
          else
            (case Unpack x p of
               Inl e \<Rightarrow> (Returns (None, Some e), t)
             | Inr m \<Rightarrow>
                 (let ts = IsTsig x m in
                  if receiver_not_nil t then
                    (case ts of
                       None \<Rightarrow> (Panics, t)
                     | Some ts \<Rightarrow>
                         (case TsigSecret t (Name (Hdr ts)) of
                            None \<Rightarrow> (Returns (Some m, Some ErrSecret), t)
                          | Some secret \<Rightarrow>
                              (Returns (Some m,
                                 TsigVerify x p secret (tsigRequestMAC t) (tsigTimersOnly t)), t)))
                  else (Returns (Some m, err), t))))"

definition WriteMsg :: "externals \<Rightarrow> Transfer \<Rightarrow> Msg \<Rightarrow> error option outcome \<times> Transfer" where
  "WriteMsg x t m =
     (let ts = IsTsig x m in
      case
        (if receiver_not_nil t then
           (case ts of
              None \<Rightarrow> (Panics, t)
            | Some ts \<Rightarrow>
                (case TsigSecret t (Name (Hdr ts)) of
                   None \<Rightarrow> (Returns (Inl ErrSecret), t)
                 | Some secret \<Rightarrow>
                     (case TsigGenerate x m secret (tsigRequestMAC t) (tsigTimersOnly t) of
                        (out, mac, err) \<Rightarrow>
                          (Returns (Inr (out, err)), t\<lparr>tsigRequestMAC := mac\<rparr>))))
         else
           (case Pack x m of
              Inl e \<Rightarrow> (Returns (Inr ([], Some e)), t)
            | Inr out \<Rightarrow> (Returns (Inr (out, None)), t)))
      of
        (Panics, t) \<Rightarrow> (Panics, t)
      | (Blocks, t) \<Rightarrow> (Blocks, t)
      | (Returns (Inl e), t) \<Rightarrow> (Returns (Some e), t)
      | (Returns (Inr (out, err)), t) \<Rightarrow>
          if err \<noteq> None then (Returns err, t)
          else (case Write t out of (werr, t) \<Rightarrow> (Returns werr, t)))"

section \<open>The inbound transfer\<close>

text \<open>
  One pass through the body of the \<^verbatim>\<open>for\<close> loop of \<^verbatim>\<open>InAxfr\<close> ends in \<^verbatim>\<open>return\<close> or goes
  round again (\<^verbatim>\<open>continue\<close>, or the end of the body).
\<close>

datatype control = Return | Continue

text \<open>
  The block \<^verbatim>\<open>if !first { ... }\<close> that closes the loop body; it is reached with a first
  message of more than one record and with every later message.
\<close>

definition InAxfr_rest ::
  "bool \<Rightarrow> Msg \<Rightarrow> Transfer \<Rightarrow> control outcome \<times> Envelope list \<times> bool \<times> Transfer" where
  "InAxfr_rest first msg t =
     (if \<not> first then
        (let t = t\<lparr>tsigTimersOnly := True\<rparr> in
         if isSOALast msg
         then (Returns Return, [\<lparr>RR = Answer msg, Error = None\<rparr>], first, t)
         else (Returns Continue, [\<lparr>RR = Answer msg, Error = None\<rparr>], first, t))
      else (Returns Continue, [], first, t))"

text \<open>
  The loop body: what the pass does, the Envelopes it sends on \<^verbatim>\<open>c\<close>, and the values
  of \<^verbatim>\<open>first\<close> and of the Transfer after it. The consumer is taken to receive every
  Envelope (a send on the unbuffered channel waits for it).
\<close>

definition InAxfr_iter ::
  "externals \<Rightarrow> 16 word \<Rightarrow> bool \<Rightarrow> Transfer \<Rightarrow>
     control outcome \<times> Envelope list \<times> bool \<times> Transfer" where
  "InAxfr_iter x id' first t =
     (case ReadMsg x t of
        (Blocks, t) \<Rightarrow> (Blocks, [], first, t)
      | (Panics, t) \<Rightarrow> (Panics, [], first, t)
      | (Returns (msg, err), t) \<Rightarrow>
          if err \<noteq> None then (Returns Return, [\<lparr>RR = [], Error = err\<rparr>], first, t)
          else
            (case msg of
               None \<Rightarrow> (Panics, [], first, t)
             | Some msg \<Rightarrow>
                 if id' \<noteq> MsgId msg
                 then (Returns Return, [\<lparr>RR = Answer msg, Error = Some ErrId\<rparr>], first, t)
                 else if first then
                   (if \<not> isSOAFirst msg
                    then (Returns Return, [\<lparr>RR = Answer msg, Error = Some ErrSoa\<rparr>], first, t)
                    else
                      (let first = \<not> first in
                       if length (Answer msg) = 1
                       then (Returns Continue, [\<lparr>RR = Answer msg, Error = None\<rparr>], first,
                             t\<lparr>tsigTimersOnly := True\<rparr>)
                       else InAxfr_rest first msg t))
                 else InAxfr_rest first msg t))"

text \<open>
  The loop. Every pass that goes round again has taken one entry of the peer's script,
  which is the measure.
\<close>

function InAxfr_loop ::
  "externals \<Rightarrow> 16 word \<Rightarrow> bool \<Rightarrow> Transfer \<Rightarrow> Envelope list \<times> unit outcome \<times> Transfer" where
  "InAxfr_loop x id' first t =
     (case InAxfr_iter x id' first t of
        (Returns Continue, c, first', t') \<Rightarrow>
          (case InAxfr_loop x id' first' t' of (c', r) \<Rightarrow> (c @ c', r))
      | (Returns Return, c, first', t') \<Rightarrow> (c, Returns (), t')
      | (Panics, c, first', t') \<Rightarrow> (c, Panics, t')
      | (Blocks, c, first', t') \<Rightarrow> (c, Blocks, t'))"
  by pat_completeness auto
termination
  by (relation "measure (\<lambda>(x, id', first, t). length (Incoming t))")
     (auto simp: InAxfr_iter_def InAxfr_rest_def ReadMsg_def Read_def Let_def
           split: list.splits prod.splits outcome.splits option.splits sum.splits if_splits)

text \<open>
  A run of \<^verbatim>\<open>InAxfr\<close>: the Envelopes sent, whether the channel was closed, how the
  goroutine ended, and the Transfer it leaves. The deferred \<^verbatim>\<open>close(c)\<close> and
  \<^verbatim>\<open>t.Close()\<close> run on return and on panic, not while the loop waits in a read.
\<close>

record run =
  Sent :: "Envelope list"
  ChanClosed :: bool
  Ending :: "unit outcome"
  Final :: Transfer

definition Close :: "Transfer \<Rightarrow> Transfer" where
  "Close t = t\<lparr>Closed := True\<rparr>"

definition InAxfr :: "externals \<Rightarrow> 16 word \<Rightarrow> Transfer \<Rightarrow> run" where
  "InAxfr x id' t =
     (case InAxfr_loop x id' True t of
        (c, Blocks, t') \<Rightarrow> \<lparr>Sent = c, ChanClosed = False, Ending = Blocks, Final = t'\<rparr>
      | (c, r, t') \<Rightarrow> \<lparr>Sent = c, ChanClosed = True, Ending = r, Final = Close t'\<rparr>)"

section \<open>Starting an inbound transfer\<close>

text \<open>
  \<^verbatim>\<open>In\<close> dials into a fresh \<^verbatim>\<open>co := new(Conn)\<close> and starts \<^verbatim>\<open>go t.InAxfr(q.Id, env)\<close>
  on the receiver \<^verbatim>\<open>t\<close>. The result records the returned error, the dialled connection
  \<^verbatim>\<open>co\<close> as the call leaves it, and the run of the goroutine when one is started (it is
  the only user of \<^verbatim>\<open>t\<close>). \<^verbatim>\<open>q.Question[0]\<close> on an empty question section is an index
  out of range.
\<close>

record In_run =
  Err :: "error option outcome"
  Dialed :: "Conn option"
  Spawned :: "run option"

definition Conn_of :: "NetConn \<Rightarrow> Conn" where
  "Conn_of nc =
     \<lparr>Incoming = Incoming nc, Outgoing = Outgoing nc, WriteResults = WriteResults nc,
      Closed = Closed nc, TsigSecret = Map.empty, tsigRequestMAC = []\<rparr>"

definition In :: "externals \<Rightarrow> Transfer \<Rightarrow> Msg \<Rightarrow> string \<Rightarrow> In_run" where
  "In x t q a =
     (let timeout = dnsTimeout;
          timeout = (if DialTimeout t \<noteq> 0 then DialTimeout t else timeout)
      in case DialTimeout_net x a timeout of
           Inl err \<Rightarrow> \<lparr>Err = Returns (Some err), Dialed = None, Spawned = None\<rparr>
         | Inr nc \<Rightarrow>
             (let co = Conn_of nc in
              case Question q of
                [] \<Rightarrow> \<lparr>Err = Panics, Dialed = Some co, Spawned = None\<rparr>
              | q0 # _ \<Rightarrow>
                  if Qtype q0 = TypeAXFR
                  then \<lparr>Err = Returns None, Dialed = Some co,
                        Spawned = Some (InAxfr x (MsgId q) t)\<rparr>
                  else if Qtype q0 = TypeIXFR
                  then \<lparr>Err = Returns None, Dialed = Some co,
                        Spawned = Some (InAxfr x (MsgId q) t)\<rparr>
                  else \<lparr>Err = Returns None, Dialed = Some co, Spawned = None\<rparr>))"

section \<open>The outbound responder\<close>

text \<open>
  The goroutine of \<^verbatim>\<open>Out\<close> ranges over the channel \<^verbatim>\<open>ch\<close>. The feed is the list of
  what the producer sends (a \<^verbatim>\<open>*Envelope\<close>, nil as \<open>None\<close>) and whether it closes the
  channel afterwards. The \<^verbatim>\<open>ResponseWriter\<close> is an interface: any state \<open>'w\<close> with a
  \<^verbatim>\<open>WriteMsg\<close>. The result lists the messages handed to \<^verbatim>\<open>w.WriteMsg\<close>, each as \<^verbatim>\<open>r\<close>
  stood at the call.
\<close>

definition new_Msg :: Msg where
  "new_Msg = \<lparr>MsgId = 0, Authoritative = False, Question = [], Answer = [], Extra = []\<rparr>"

fun Out_loop ::
  "('w \<Rightarrow> Msg \<Rightarrow> error option \<times> 'w) \<Rightarrow> 'w \<Rightarrow> Msg \<Rightarrow> Envelope option list \<Rightarrow> bool \<Rightarrow>
     Msg list \<times> unit outcome \<times> 'w" where
  "Out_loop wr w r [] closed = ([], if closed then Returns () else Blocks, w)"
| "Out_loop wr w r (None # ch) closed = ([], Panics, w)"
| "Out_loop wr w r (Some x # ch) closed =
     (let r = r\<lparr>Answer := Answer r @ RR x\<rparr> in
      case wr w r of
        (Some err, w) \<Rightarrow> ([r], Returns (), w)
      | (None, w) \<Rightarrow> (case Out_loop wr w r ch closed of (ms, res) \<Rightarrow> (r # ms, res)))"

definition Out ::
  "externals \<Rightarrow> ('w \<Rightarrow> Msg \<Rightarrow> error option \<times> 'w) \<Rightarrow> 'w \<Rightarrow> Msg \<Rightarrow> string \<Rightarrow>
     Envelope option list \<Rightarrow> bool \<Rightarrow> Msg list \<times> unit outcome \<times> 'w" where
  "Out x wr w q a ch closed =
     (let r = new_Msg;
          r = SetReply x r q;
          r = r\<lparr>Authoritative := True\<rparr>
      in Out_loop wr w r ch closed)"

section \<open>The passes of a transfer that go round again\<close>

text \<open>
  \<open>InAxfr_passes x id' n (first, t, c)\<close> runs \<open>n\<close> passes of the loop body from the
  values \<open>first\<close> and \<open>t\<close>, appending to \<open>c\<close> what they send; it is \<open>None\<close> unless each
  of the \<open>n\<close> passes goes round again.
\<close>

fun InAxfr_passes ::
  "externals \<Rightarrow> 16 word \<Rightarrow> nat \<Rightarrow> bool \<times> Transfer \<times> Envelope list \<Rightarrow>
     (bool \<times> Transfer \<times> Envelope list) option" where
  "InAxfr_passes x id' 0 s = Some s"
| "InAxfr_passes x id' (Suc n) (first, t, c) =
     (case InAxfr_iter x id' first t of
        (Returns Continue, c', first', t') \<Rightarrow> InAxfr_passes x id' n (first', t', c @ c')
      | _ \<Rightarrow> None)"

section \<open>A concrete instance\<close>

text \<open>
  To run the model, an instance of the external functions: a two-byte header (identifier,
  signed or not) followed by one (type, data) pair of bytes per answer record; a signed
  message carries a TSIG record of the key \<open>axfr.\<close> last in its additional section; a
  signature verifies under the secret \<open>c2VjcmV0\<close> and under no other.
\<close>

definition TypeA :: "16 word" where "TypeA = 1"
definition TypeTSIG :: "16 word" where "TypeTSIG = 250"

definition demo_rr :: "16 word \<Rightarrow> byte \<Rightarrow> RR" where
  "demo_rr ty d = \<lparr>Header = \<lparr>Name = ''example.org.'', Rrtype = ty\<rparr>, Rdata = [d]\<rparr>"

definition demo_tsig :: RR where
  "demo_tsig = \<lparr>Header = \<lparr>Name = ''axfr.'', Rrtype = TypeTSIG\<rparr>, Rdata = []\<rparr>"

fun demo_rrs :: "byte list \<Rightarrow> RR list" where
  "demo_rrs (ty # d # rest) = demo_rr (ucast ty) d # demo_rrs rest"
| "demo_rrs _ = []"

definition demo_msg :: "16 word \<Rightarrow> bool \<Rightarrow> RR list \<Rightarrow> Msg" where
  "demo_msg i sg rrs =
     \<lparr>MsgId = i, Authoritative = True, Question = [], Answer = rrs,
      Extra = (if sg then [demo_tsig] else [])\<rparr>"

definition demo_Unpack :: "byte list \<Rightarrow> error + Msg" where
  "demo_Unpack p =
     (case p of
        i # sg # body \<Rightarrow> Inr (demo_msg (ucast i) (sg \<noteq> 0) (demo_rrs body))
      | _ \<Rightarrow> Inl (ErrOther ''dns: short read''))"

definition demo_Pack :: "Msg \<Rightarrow> byte list" where
  "demo_Pack m =
     ucast (MsgId m) # (if Extra m = [] then 0 else 1) #
     concat (map (\<lambda>r. [ucast (Rrtype (Header r)), case Rdata r of [] \<Rightarrow> 0 | d # _ \<Rightarrow> d]) (Answer m))"

definition demo_IsTsig :: "Msg \<Rightarrow> TSIG option" where
  "demo_IsTsig m =
     (case Extra m of
        [] \<Rightarrow> None
      | _ \<Rightarrow> if Rrtype (Header (last (Extra m))) = TypeTSIG
             then Some \<lparr>Hdr = Header (last (Extra m))\<rparr> else None)"

definition demo_net ::
  "string \<Rightarrow> (byte list \<times> error option) list \<Rightarrow> string \<Rightarrow> int \<Rightarrow> error + NetConn" where
  "demo_net server script a timeout =
     (if a = server
      then Inr \<lparr>Incoming = script, Outgoing = [], WriteResults = [], Closed = False\<rparr>
      else Inl (ErrOther ''dial tcp: connection refused''))"

definition demo :: "string \<Rightarrow> (byte list \<times> error option) list \<Rightarrow> externals" where
  "demo server script =
     \<lparr>Unpack = demo_Unpack,
      Pack = (\<lambda>m. Inr (demo_Pack m)),
      IsTsig = demo_IsTsig,
      TsigVerify = (\<lambda>p secret mac timers.
         if secret = ''c2VjcmV0'' then None else Some (ErrOther ''dns: bad signature'')),
      TsigGenerate = (\<lambda>m secret mac timers. (demo_Pack m, secret @ mac, None)),
      SetReply = (\<lambda>r q. r\<lparr>MsgId := MsgId q, Question := Question q\<rparr>),
      DialTimeout_net = demo_net server script\<rparr>"

text \<open>
  A Transfer as \<^verbatim>\<open>new(Transfer)\<close> leaves its own fields, with the key of the instance,
  on a connection with the given script.
\<close>

definition demo_Transfer :: "(byte list \<times> error option) list \<Rightarrow> Transfer" where
  "demo_Transfer script =
     \<lparr>Incoming = script, Outgoing = [], WriteResults = [], Closed = False,
      TsigSecret = [''axfr.'' \<mapsto> ''c2VjcmV0''], tsigRequestMAC = [],
      DialTimeout = 0, ReadTimeout = 0, WriteTimeout = 0, tsigTimersOnly = False\<rparr>"

definition SOA5 :: RR where
  "SOA5 = demo_rr TypeSOA 5"

definition EOF :: error where
  "EOF = ErrOther ''EOF''"

section \<open>Lemmas on the loop body and the loop\<close>

text \<open>
  The equation of the loop is unfolded by hand, through the lemmas below, one pass at a time.
\<close>

declare InAxfr_loop.simps [simp del]


lemma iter_mismatch:
  "ReadMsg x t = (Returns (Some m, None), t') \<Longrightarrow> MsgId m \<noteq> id' \<Longrightarrow>
   InAxfr_iter x id' first t = (Returns Return, [\<lparr>RR = Answer m, Error = Some ErrId\<rparr>], first, t')"
  by (auto simp: InAxfr_iter_def)

lemma iter_no_soa:
  "ReadMsg x t = (Returns (Some m, None), t') \<Longrightarrow> MsgId m = id' \<Longrightarrow> \<not> isSOAFirst m \<Longrightarrow>
   InAxfr_iter x id' True t = (Returns Return, [\<lparr>RR = Answer m, Error = Some ErrSoa\<rparr>], True, t')"
  by (simp add: InAxfr_iter_def)


lemma iter_streaming:
  "ReadMsg x t = (Returns (Some m, None), t') \<Longrightarrow> MsgId m = id' \<Longrightarrow>
   \<not> first \<or> (isSOAFirst m \<and> length (Answer m) \<noteq> 1) \<Longrightarrow>
   InAxfr_iter x id' first t =
     (Returns (if isSOALast m then Return else Continue), [\<lparr>RR = Answer m, Error = None\<rparr>],
      False, t'\<lparr>tsigTimersOnly := True\<rparr>)"
  by (auto simp: InAxfr_iter_def InAxfr_rest_def Let_def)

lemma loop_Return:
  "InAxfr_iter x id' first t = (Returns Return, c, first', t') \<Longrightarrow>
   InAxfr_loop x id' first t = (c, Returns (), t')"
  by (simp add: InAxfr_loop.simps)

lemma loop_Continue:
  "InAxfr_iter x id' first t = (Returns Continue, c, first', t') \<Longrightarrow>
   InAxfr_loop x id' first t = (case InAxfr_loop x id' first' t' of (c', r) \<Rightarrow> (c @ c', r))"
  by (simp add: InAxfr_loop.simps)

lemma loop_Blocks:
  "Incoming t = [] \<Longrightarrow> InAxfr_loop x id' first t = ([], Blocks, t)"
  by (simp add: InAxfr_loop.simps InAxfr_iter_def ReadMsg_def Read_def)

lemma iter_Continue_sends:
  "InAxfr_iter x id' first t = (Returns Continue, c, first', t') \<Longrightarrow>
   \<exists>m t1. ReadMsg x t = (Returns (Some m, None), t1) \<and> MsgId m = id' \<and>
     c = [\<lparr>RR = Answer m, Error = None\<rparr>] \<and> \<not> first' \<and> t' = t1\<lparr>tsigTimersOnly := True\<rparr>"
  by (fastforce simp: InAxfr_iter_def InAxfr_rest_def Let_def
           split: prod.splits outcome.splits option.splits if_splits)

lemma iter_Continue_ok:
  "InAxfr_iter x id' first t = (Returns Continue, c, first', t') \<Longrightarrow>
   length c = 1 \<and> (\<forall>e \<in> set c. Error e = None) \<and> \<not> first' \<and> tsigTimersOnly t'"
  by (auto simp: InAxfr_iter_def InAxfr_rest_def Let_def
           split: prod.splits outcome.splits option.splits if_splits)

lemma passes_loop:
  "InAxfr_passes x id' n (first, t, c0) = Some (first', t', c) \<Longrightarrow>
   \<exists>d. c = c0 @ d \<and> length d = n \<and> (\<forall>e \<in> set d. Error e = None) \<and>
       InAxfr_loop x id' first t =
         (case InAxfr_loop x id' first' t' of (c', r) \<Rightarrow> (d @ c', r))"
proof (induction n arbitrary: first t c0)
  case 0
  then show ?case by simp
next
  case (Suc n)
  from Suc.prems obtain c1 f1 t1 where
    it: "InAxfr_iter x id' first t = (Returns Continue, c1, f1, t1)" and
    rest: "InAxfr_passes x id' n (f1, t1, c0 @ c1) = Some (first', t', c)"
    by (auto split: prod.splits outcome.splits control.splits)
  have c1: "length c1 = 1" "\<forall>e \<in> set c1. Error e = None"
    using iter_Continue_ok [OF it] by simp_all
  from Suc.IH [OF rest] obtain d where
    d: "c = (c0 @ c1) @ d" "length d = n" "\<forall>e \<in> set d. Error e = None"
       "InAxfr_loop x id' f1 t1 = (case InAxfr_loop x id' first' t' of (c', r) \<Rightarrow> (d @ c', r))"
    by (elim exE conjE) (rule that)
  have "InAxfr_loop x id' first t =
          (case InAxfr_loop x id' first' t' of (c', r) \<Rightarrow> ((c1 @ d) @ c', r))"
    using loop_Continue [OF it] d(4) by (simp split: prod.splits)
  with d c1 show ?case
    by (intro exI [of _ "c1 @ d"]) auto
qed

lemmas demo_simps =
  demo_def demo_Transfer_def demo_Unpack_def demo_IsTsig_def demo_msg_def demo_tsig_def
  demo_rr_def demo_net_def SOA5_def EOF_def TypeSOA_def TypeTSIG_def TypeA_def TypeAXFR_def TypeIXFR_def
  ReadMsg_def Read_def receiver_not_nil_def isSOAFirst_def isSOALast_def






lemma passes_snoc:
  "InAxfr_passes x id' n (f0, t0, c0) = Some (first, t, c) \<Longrightarrow>
   InAxfr_iter x id' first t = (Returns Continue, c1, f1, t1) \<Longrightarrow>
   InAxfr_passes x id' (Suc n) (f0, t0, c0) = Some (f1, t1, c @ c1)"
proof (induction n arbitrary: f0 t0 c0)
  case 0
  then show ?case by simp
next
  case (Suc n)
  from Suc.prems(1) obtain c2 f2 t2 where
    it: "InAxfr_iter x id' f0 t0 = (Returns Continue, c2, f2, t2)" and
    rest: "InAxfr_passes x id' n (f2, t2, c0 @ c2) = Some (first, t, c)"
    by (auto split: prod.splits outcome.splits control.splits)
  from Suc.IH [OF rest Suc.prems(2)] it show ?case by simp
qed

lemma passes_run:
  assumes "InAxfr_passes x id' n (True, t0, []) = Some (first, t, c)"
    and "InAxfr_iter x id' first t = (Returns Return, c1, f1, t1)"
  shows "InAxfr x id' t0 =
           \<lparr>Sent = c @ c1, ChanClosed = True, Ending = Returns (), Final = Close t1\<rparr>"
proof -
  from passes_loop [OF assms(1)] obtain d where
    d: "c = [] @ d"
       "InAxfr_loop x id' True t0 = (case InAxfr_loop x id' first t of (c', r) \<Rightarrow> (d @ c', r))"
    by (elim exE conjE) (rule that)
  with loop_Return [OF assms(2)] show ?thesis
    by (simp add: InAxfr_def)
qed

lemma Out_loop_accumulates:
  "map Answer (fst (Out_loop (\<lambda>w m. (None, f w m)) w r (map Some xs) closed)) =
   map (\<lambda>k. Answer r @ concat (map RR (take (Suc k) xs))) [0..<length xs]"
proof (induction xs arbitrary: r w)
  case Nil
  then show ?case by simp
next
  case (Cons x xs)
  let ?r = "r\<lparr>Answer := Answer r @ RR x\<rparr>"
  obtain ms res w' where
    ol: "Out_loop (\<lambda>w m. (None, f w m)) (f w ?r) ?r (map Some xs) closed = (ms, res, w')"
    by (cases "Out_loop (\<lambda>w m. (None, f w m)) (f w ?r) ?r (map Some xs) closed") auto
  from Cons.IH [of "f w ?r" ?r] ol
  have "map Answer ms =
          map (\<lambda>k. Answer ?r @ concat (map RR (take (Suc k) xs))) [0..<length xs]"
    by simp
  with ol show ?case
    by (simp add: Let_def map_upt_Suc del: upt_Suc)
qed

text \<open>The timeouts of a Transfer are carried along and read by nothing.\<close>

lemma ReadMsg_timeouts:
  "ReadMsg x (t\<lparr>ReadTimeout := rt, WriteTimeout := wt\<rparr>) =
     (case ReadMsg x t of (r, t') \<Rightarrow> (r, t'\<lparr>ReadTimeout := rt, WriteTimeout := wt\<rparr>))"
  by (simp add: ReadMsg_def Read_def Let_def receiver_not_nil_def
           split: list.splits prod.splits option.splits sum.splits)

lemma WriteMsg_timeouts:
  "WriteMsg x (t\<lparr>ReadTimeout := rt, WriteTimeout := wt\<rparr>) m =
     (case WriteMsg x t m of (r, t') \<Rightarrow> (r, t'\<lparr>ReadTimeout := rt, WriteTimeout := wt\<rparr>))"
  by (simp add: WriteMsg_def Write_def Let_def receiver_not_nil_def
           split: list.splits prod.splits option.splits sum.splits)

lemma iter_timeouts:
  "InAxfr_iter x id' first (t\<lparr>ReadTimeout := rt, WriteTimeout := wt\<rparr>) =
     (case InAxfr_iter x id' first t of
        (r, c, f, t') \<Rightarrow> (r, c, f, t'\<lparr>ReadTimeout := rt, WriteTimeout := wt\<rparr>))"
  by (simp add: InAxfr_iter_def InAxfr_rest_def ReadMsg_timeouts Let_def
           split: prod.splits outcome.splits option.splits)

lemma loop_timeouts:
  "InAxfr_loop x id' first (t\<lparr>ReadTimeout := rt, WriteTimeout := wt\<rparr>) =
     (case InAxfr_loop x id' first t of
        (c, r, t') \<Rightarrow> (c, r, t'\<lparr>ReadTimeout := rt, WriteTimeout := wt\<rparr>))"
proof (induction x id' first t rule: InAxfr_loop.induct)
  case (1 x id' first t)
  obtain res c1 f1 t1 where it: "InAxfr_iter x id' first t = (res, c1, f1, t1)"
    by (cases "InAxfr_iter x id' first t") auto
  then have it': "InAxfr_iter x id' first (t\<lparr>ReadTimeout := rt, WriteTimeout := wt\<rparr>) =
      (res, c1, f1, t1\<lparr>ReadTimeout := rt, WriteTimeout := wt\<rparr>)"
    by (simp add: iter_timeouts)
  show ?case
  proof (cases res)
    case (Returns ctl)
    show ?thesis
    proof (cases ctl)
      case Return
      with Returns it it' show ?thesis by (simp add: loop_Return)
    next
      case Continue
      from it Returns Continue
      have c: "InAxfr_iter x id' first t = (Returns Continue, c1, f1, t1)" by simp
      from it' Returns Continue
      have c': "InAxfr_iter x id' first (t\<lparr>ReadTimeout := rt, WriteTimeout := wt\<rparr>) =
          (Returns Continue, c1, f1, t1\<lparr>ReadTimeout := rt, WriteTimeout := wt\<rparr>)" by simp
      have ih: "InAxfr_loop x id' f1 (t1\<lparr>ReadTimeout := rt, WriteTimeout := wt\<rparr>) =
          (case InAxfr_loop x id' f1 t1 of
             (c, r, t') \<Rightarrow> (c, r, t'\<lparr>ReadTimeout := rt, WriteTimeout := wt\<rparr>))"
        by (rule "1.IH" [OF c [symmetric] refl refl refl refl])
      show ?thesis
        by (simp add: loop_Continue [OF c] loop_Continue [OF c'] ih split: prod.splits)
    qed
  next
    case Panics
    with it it' show ?thesis by (simp add: InAxfr_loop.simps)
  next
    case Blocks
    with it it' show ?thesis by (simp add: InAxfr_loop.simps)
  qed
qed

section \<open>Claims\<close>

subsection \<open>The inbound state machine\<close>




text \<open>
  C4. A message that is read without error, carries the identifier of the request and is
  handled by the closing block of the loop body (a first message that begins with an SOA
  and has more than one record, or any message after \<open>n \<ge> 1\<close> passes, when
  \<open>first\<close> is false): the pass sets \<open>tsigTimersOnly\<close> and sends the Envelope
  \<open>{message.answers, nil}\<close>. If the last answer record is an SOA the transfer returns:
  the run is the Envelopes of the earlier passes and this one, the channel and the
  connection are closed, and nothing is read after this message. Otherwise the pass goes
  round again and the loop reads on with \<open>first = false\<close>.
\<close>

theorem streaming_message:
  assumes "InAxfr_passes x id' n (True, t0, []) = Some (first, t, c)"
    and "ReadMsg x t = (Returns (Some m, None), t')" and "MsgId m = id'"
    and "\<not> first \<or> (isSOAFirst m \<and> 1 < length (Answer m))"
  shows "InAxfr_iter x id' first t =
           (Returns (if isSOALast m then Return else Continue),
            [\<lparr>RR = Answer m, Error = None\<rparr>], False, t'\<lparr>tsigTimersOnly := True\<rparr>) \<and>
         (if isSOALast m
          then InAxfr x id' t0 =
                 \<lparr>Sent = c @ [\<lparr>RR = Answer m, Error = None\<rparr>], ChanClosed = True,
                  Ending = Returns (), Final = Close (t'\<lparr>tsigTimersOnly := True\<rparr>)\<rparr>
          else InAxfr_passes x id' (Suc n) (True, t0, []) =
                 Some (False, t'\<lparr>tsigTimersOnly := True\<rparr>, c @ [\<lparr>RR = Answer m, Error = None\<rparr>]) \<and>
               InAxfr_loop x id' first t =
                 (case InAxfr_loop x id' False (t'\<lparr>tsigTimersOnly := True\<rparr>) of
                    (c', r) \<Rightarrow> (\<lparr>RR = Answer m, Error = None\<rparr> # c', r)))"
proof -
  from assms(4) have "\<not> first \<or> (isSOAFirst m \<and> length (Answer m) \<noteq> 1)" by auto
  note it = iter_streaming [OF assms(2,3) this]
  show ?thesis
  proof (cases "isSOALast m")
    case True
    with it have "InAxfr_iter x id' first t =
        (Returns Return, [\<lparr>RR = Answer m, Error = None\<rparr>], False, t'\<lparr>tsigTimersOnly := True\<rparr>)"
      by simp
    from passes_run [OF assms(1) this] it True show ?thesis by simp
  next
    case False
    with it have c: "InAxfr_iter x id' first t =
        (Returns Continue, [\<lparr>RR = Answer m, Error = None\<rparr>], False, t'\<lparr>tsigTimersOnly := True\<rparr>)"
      by simp
    from passes_snoc [OF assms(1) c] loop_Continue [OF c] it False show ?thesis by simp
  qed
qed

theorem streaming_message_witness:
  "InAxfr_passes (demo [] []) 42 (Suc 0)
       (True, demo_Transfer [([42, 1, 6, 5], None), ([42, 1, 1, 7, 1, 8, 6, 5], None)], []) =
     Some (False, (demo_Transfer [([42, 1, 1, 7, 1, 8, 6, 5], None)])\<lparr>tsigTimersOnly := True\<rparr>,
           [\<lparr>RR = [SOA5], Error = None\<rparr>]) \<and>
   ReadMsg (demo [] []) ((demo_Transfer [([42, 1, 1, 7, 1, 8, 6, 5], None)])\<lparr>tsigTimersOnly := True\<rparr>) =
     (Returns (Some (demo_msg 42 True [demo_rr TypeA 7, demo_rr TypeA 8, SOA5]), None),
      (demo_Transfer [])\<lparr>tsigTimersOnly := True\<rparr>) \<and>
   isSOALast (demo_msg 42 True [demo_rr TypeA 7, demo_rr TypeA 8, SOA5]) \<and>
   InAxfr (demo [] []) 42
       (demo_Transfer [([42, 1, 6, 5], None), ([42, 1, 1, 7, 1, 8, 6, 5], None)]) =
     \<lparr>Sent = [\<lparr>RR = [SOA5], Error = None\<rparr>,
              \<lparr>RR = [demo_rr TypeA 7, demo_rr TypeA 8, SOA5], Error = None\<rparr>],
      ChanClosed = True, Ending = Returns (),
      Final = Close ((demo_Transfer [])\<lparr>tsigTimersOnly := True\<rparr>)\<rparr> \<and>
   isSOAFirst (demo_msg 42 True [SOA5, demo_rr TypeA 7, SOA5]) \<and>
   InAxfr (demo [] []) 42 (demo_Transfer [([42, 1, 6, 5, 1, 7, 6, 5], None)]) =
     \<lparr>Sent = [\<lparr>RR = [SOA5, demo_rr TypeA 7, SOA5], Error = None\<rparr>],
      ChanClosed = True, Ending = Returns (),
      Final = Close ((demo_Transfer [])\<lparr>tsigTimersOnly := True\<rparr>)\<rparr>"
  using streaming_message [of "demo [] []" 42 0
      "demo_Transfer [([42, 1, 6, 5, 1, 7, 6, 5], None)]"
      True "demo_Transfer [([42, 1, 6, 5, 1, 7, 6, 5], None)]" "[]"
      "demo_msg 42 True [SOA5, demo_rr TypeA 7, SOA5]" "demo_Transfer []"]
    streaming_message [of "demo [] []" 42 "Suc 0"
      "demo_Transfer [([42, 1, 6, 5], None), ([42, 1, 1, 7, 1, 8, 6, 5], None)]"
      False "(demo_Transfer [([42, 1, 1, 7, 1, 8, 6, 5], None)])\<lparr>tsigTimersOnly := True\<rparr>"
      "[\<lparr>RR = [SOA5], Error = None\<rparr>]"
      "demo_msg 42 True [demo_rr TypeA 7, demo_rr TypeA 8, SOA5]"
      "(demo_Transfer [])\<lparr>tsigTimersOnly := True\<rparr>"]
  by (simp add: InAxfr_iter_def InAxfr_rest_def demo_simps)




text \<open>
  C8. When the first \<open>n\<close> passes of a transfer go round again (their messages are
  accepted and none closes the transfer) and the next message is read without error but
  carries another identifier than the request, the run sends the \<open>n\<close> Envelopes of
  those passes, none with an error, then the Envelope with the answer section of the
  mismatched message and \<open>ErrId\<close>, and returns with the channel and the connection
  closed; the Transfer it leaves is the one right after the read of that message, so
  nothing further was read.
\<close>

theorem id_mismatch_ends_transfer:
  assumes "InAxfr_passes x id' n (True, t0, []) = Some (first, t, c)"
    and "ReadMsg x t = (Returns (Some m, None), t')" and "MsgId m \<noteq> id'"
  shows "InAxfr x id' t0 =
           \<lparr>Sent = c @ [\<lparr>RR = Answer m, Error = Some ErrId\<rparr>], ChanClosed = True,
            Ending = Returns (), Final = Close t'\<rparr> \<and>
         length c = n \<and> list_all (\<lambda>e. Error e = None) c"
proof -
  from passes_loop [OF assms(1)] have "length c = n" "\<forall>e \<in> set c. Error e = None"
    by auto
  with passes_run [OF assms(1) iter_mismatch [OF assms(2,3)]] show ?thesis
    by (simp add: list_all_iff)
qed

theorem id_mismatch_ends_transfer_witness:
  "InAxfr_passes (demo [] []) 42 (Suc 0)
       (True, demo_Transfer [([42, 1, 6, 5], None), ([99, 1, 1, 7], None), ([42, 1, 6, 5], None)], []) =
     Some (False, (demo_Transfer [([99, 1, 1, 7], None), ([42, 1, 6, 5], None)])\<lparr>tsigTimersOnly := True\<rparr>,
           [\<lparr>RR = [SOA5], Error = None\<rparr>]) \<and>
   ReadMsg (demo [] [])
       ((demo_Transfer [([99, 1, 1, 7], None), ([42, 1, 6, 5], None)])\<lparr>tsigTimersOnly := True\<rparr>) =
     (Returns (Some (demo_msg 99 True [demo_rr TypeA 7]), None),
      (demo_Transfer [([42, 1, 6, 5], None)])\<lparr>tsigTimersOnly := True\<rparr>) \<and>
   MsgId (demo_msg 99 True [demo_rr TypeA 7]) \<noteq> 42 \<and>
   InAxfr (demo [] []) 42
       (demo_Transfer [([42, 1, 6, 5], None), ([99, 1, 1, 7], None), ([42, 1, 6, 5], None)]) =
     \<lparr>Sent = [\<lparr>RR = [SOA5], Error = None\<rparr>, \<lparr>RR = [demo_rr TypeA 7], Error = Some ErrId\<rparr>],
      ChanClosed = True, Ending = Returns (),
      Final = Close ((demo_Transfer [([42, 1, 6, 5], None)])\<lparr>tsigTimersOnly := True\<rparr>)\<rparr>"
  using id_mismatch_ends_transfer [of "demo [] []" 42 "Suc 0"
      "demo_Transfer [([42, 1, 6, 5], None), ([99, 1, 1, 7], None), ([42, 1, 6, 5], None)]"
      False "(demo_Transfer [([99, 1, 1, 7], None), ([42, 1, 6, 5], None)])\<lparr>tsigTimersOnly := True\<rparr>"
      "[\<lparr>RR = [SOA5], Error = None\<rparr>]"
      "demo_msg 99 True [demo_rr TypeA 7]"
      "(demo_Transfer [([42, 1, 6, 5], None)])\<lparr>tsigTimersOnly := True\<rparr>"]
  by (simp add: InAxfr_iter_def InAxfr_rest_def demo_simps)

text \<open>
  C9. When the first message of a transfer is read without error and carries the
  identifier of the request, but its answer section does not begin with an SOA record
  (or is empty), the transfer sends exactly one Envelope, with the answer section of the
  message and \<open>ErrSoa\<close>, returns, closes the channel and the connection, and has read
  nothing after that message: the Transfer it leaves is the one after the first read.
\<close>

theorem missing_leading_SOA:
  assumes "ReadMsg x t = (Returns (Some m, None), t')" and "MsgId m = id'"
    and "\<not> isSOAFirst m"
  shows "InAxfr x id' t =
           \<lparr>Sent = [\<lparr>RR = Answer m, Error = Some ErrSoa\<rparr>], ChanClosed = True,
            Ending = Returns (), Final = Close t'\<rparr>"
  using loop_Return [OF iter_no_soa [OF assms]] by (simp add: InAxfr_def)

theorem missing_leading_SOA_witness:
  "ReadMsg (demo [] []) (demo_Transfer [([42, 1, 1, 7], None), ([42, 1, 6, 5], None)]) =
     (Returns (Some (demo_msg 42 True [demo_rr TypeA 7]), None),
      demo_Transfer [([42, 1, 6, 5], None)]) \<and>
   MsgId (demo_msg 42 True [demo_rr TypeA 7]) = 42 \<and>
   \<not> isSOAFirst (demo_msg 42 True [demo_rr TypeA 7]) \<and>
   InAxfr (demo [] []) 42 (demo_Transfer [([42, 1, 1, 7], None), ([42, 1, 6, 5], None)]) =
     \<lparr>Sent = [\<lparr>RR = [demo_rr TypeA 7], Error = Some ErrSoa\<rparr>], ChanClosed = True,
      Ending = Returns (), Final = Close (demo_Transfer [([42, 1, 6, 5], None)])\<rparr>"
  using missing_leading_SOA [of "demo [] []"
      "demo_Transfer [([42, 1, 1, 7], None), ([42, 1, 6, 5], None)]"
      "demo_msg 42 True [demo_rr TypeA 7]" "demo_Transfer [([42, 1, 6, 5], None)]" 42]
  by (simp add: demo_simps)

text \<open>
  C10. A message after the first (\<open>first\<close> is false) that is read without error,
  carries the identifier of the request and has an empty answer section: the pass sends
  the Envelope with no records and no error, and goes round again; the loop reads on.
\<close>

theorem empty_answer_goes_on:
  assumes "ReadMsg x t = (Returns (Some m, None), t')" and "MsgId m = id'"
    and "Answer m = []"
  shows "InAxfr_iter x id' False t =
           (Returns Continue, [\<lparr>RR = [], Error = None\<rparr>], False, t'\<lparr>tsigTimersOnly := True\<rparr>) \<and>
         InAxfr_loop x id' False t =
           (case InAxfr_loop x id' False (t'\<lparr>tsigTimersOnly := True\<rparr>) of
              (c', r) \<Rightarrow> (\<lparr>RR = [], Error = None\<rparr> # c', r))"
proof -
  have "\<not> isSOALast m" using assms(3) by (simp add: isSOALast_def)
  with iter_streaming [OF assms(1,2), of False] assms(3)
  have it: "InAxfr_iter x id' False t =
      (Returns Continue, [\<lparr>RR = [], Error = None\<rparr>], False, t'\<lparr>tsigTimersOnly := True\<rparr>)"
    by simp
  from loop_Continue [OF it] it show ?thesis by simp
qed

theorem empty_answer_goes_on_witness:
  "ReadMsg (demo [] []) ((demo_Transfer [([42, 1], None), ([42, 1, 6, 5], None)])\<lparr>tsigTimersOnly := True\<rparr>) =
     (Returns (Some (demo_msg 42 True []), None),
      (demo_Transfer [([42, 1, 6, 5], None)])\<lparr>tsigTimersOnly := True\<rparr>) \<and>
   Answer (demo_msg 42 True []) = [] \<and>
   InAxfr_loop (demo [] []) 42 False
       ((demo_Transfer [([42, 1], None), ([42, 1, 6, 5], None)])\<lparr>tsigTimersOnly := True\<rparr>) =
     ([\<lparr>RR = [], Error = None\<rparr>, \<lparr>RR = [SOA5], Error = None\<rparr>], Returns (),
      (demo_Transfer [])\<lparr>tsigTimersOnly := True\<rparr>)"
  using empty_answer_goes_on [of "demo [] []"
      "(demo_Transfer [([42, 1], None), ([42, 1, 6, 5], None)])\<lparr>tsigTimersOnly := True\<rparr>"
      "demo_msg 42 True []"
      "(demo_Transfer [([42, 1, 6, 5], None)])\<lparr>tsigTimersOnly := True\<rparr>" 42]
  by (simp add: InAxfr_loop.simps InAxfr_iter_def InAxfr_rest_def demo_simps)

subsection \<open>Reading, writing, dialling and responding\<close>

text \<open>
  C2. A call of \<^verbatim>\<open>In\<close> with an AXFR or IXFR question whose dial succeeds returns
  no error, leaves the dialled connection exactly as \<^verbatim>\<open>net.DialTimeout\<close> gave it
  (nothing read from it, not closed), and the goroutine it starts is the run of
  \<^verbatim>\<open>InAxfr\<close> on the receiver \<open>t\<close>: every \<^verbatim>\<open>ReadMsg\<close> of the transfer reads the
  connection embedded in \<open>t\<close>, not the dialled one.
\<close>

theorem In_reads_receiver_connection:
  assumes "DialTimeout_net x a (if DialTimeout t \<noteq> 0 then DialTimeout t else dnsTimeout) = Inr nc"
    and "Question q = q0 # qs" and "Qtype q0 = TypeAXFR \<or> Qtype q0 = TypeIXFR"
  shows "In x t q a =
           \<lparr>Err = Returns None, Dialed = Some (Conn_of nc),
            Spawned = Some (InAxfr x (MsgId q) t)\<rparr>"
  using assms by (auto simp: In_def Let_def)

theorem In_reads_receiver_connection_witness:
  "DialTimeout_net (demo ''127.0.0.1:53'' [([42, 1, 6, 5, 6, 5], None)]) ''127.0.0.1:53'' dnsTimeout =
     Inr \<lparr>Incoming = [([42, 1, 6, 5, 6, 5], None)], Outgoing = [], WriteResults = [], Closed = False\<rparr> \<and>
   In (demo ''127.0.0.1:53'' [([42, 1, 6, 5, 6, 5], None)]) (demo_Transfer [])
      \<lparr>MsgId = 42, Authoritative = False, Question = [\<lparr>Qtype = TypeAXFR\<rparr>], Answer = [], Extra = []\<rparr>
      ''127.0.0.1:53'' =
     \<lparr>Err = Returns None,
      Dialed = Some \<lparr>Incoming = [([42, 1, 6, 5, 6, 5], None)], Outgoing = [], WriteResults = [],
                     Closed = False, TsigSecret = Map.empty, tsigRequestMAC = []\<rparr>,
      Spawned = Some \<lparr>Sent = [], ChanClosed = False, Ending = Blocks, Final = demo_Transfer []\<rparr>\<rparr>"
  using In_reads_receiver_connection [of "demo ''127.0.0.1:53'' [([42, 1, 6, 5, 6, 5], None)]"
      "''127.0.0.1:53''" "demo_Transfer []"
      "\<lparr>Incoming = [([42, 1, 6, 5, 6, 5], None)], Outgoing = [], WriteResults = [], Closed = False\<rparr>"
      "\<lparr>MsgId = 42, Authoritative = False, Question = [\<lparr>Qtype = TypeAXFR\<rparr>], Answer = [], Extra = []\<rparr>"
      "\<lparr>Qtype = TypeAXFR\<rparr>" "[]"]
  by (simp add: InAxfr_def loop_Blocks Conn_of_def demo_simps)

text \<open>
  C3. For a message that carries no TSIG record (\<^verbatim>\<open>IsTsig\<close> gives nil),
  \<^verbatim>\<open>ReadMsg\<close> panics once the message is unpacked, and \<^verbatim>\<open>WriteMsg\<close> panics before
  anything is packed or written: the guard \<^verbatim>\<open>t != nil\<close> lets the TSIG branch run and
  \<^verbatim>\<open>ts.Hdr.Name\<close> dereferences nil.
\<close>

theorem unsigned_message_panics:
  assumes "IsTsig x m = None"
  shows "(Incoming t = (p, err) # rest \<and> (err = None \<or> p \<noteq> []) \<and> Unpack x p = Inr m \<longrightarrow>
            ReadMsg x t = (Panics, t\<lparr>Incoming := rest\<rparr>)) \<and>
         WriteMsg x t m = (Panics, t)"
  using assms by (auto simp: ReadMsg_def Read_def WriteMsg_def receiver_not_nil_def)

theorem unsigned_message_panics_witness:
  "IsTsig (demo [] []) (demo_msg 42 False [SOA5]) = None \<and>
   Unpack (demo [] []) [42, 0, 6, 5] = Inr (demo_msg 42 False [SOA5]) \<and>
   ReadMsg (demo [] []) (demo_Transfer [([42, 0, 6, 5], None)]) = (Panics, demo_Transfer []) \<and>
   WriteMsg (demo [] []) (demo_Transfer [([42, 0, 6, 5], None)]) (demo_msg 42 False [SOA5]) =
     (Panics, demo_Transfer [([42, 0, 6, 5], None)]) \<and>
   InAxfr (demo [] []) 42 (demo_Transfer [([42, 0, 6, 5], None)]) =
     \<lparr>Sent = [], ChanClosed = True, Ending = Panics, Final = Close (demo_Transfer [])\<rparr>"
  using unsigned_message_panics [of "demo [] []" "demo_msg 42 False [SOA5]"
      "demo_Transfer [([42, 0, 6, 5], None)]" "[42, 0, 6, 5]" None "[]"]
  by (simp add: InAxfr_def InAxfr_loop.simps InAxfr_iter_def demo_simps)

text \<open>
  C5. With a writer that does not fail, the \<open>k\<close>-th message that \<^verbatim>\<open>Out\<close> writes
  carries the answer section of the reply as \<^verbatim>\<open>SetReply\<close> left it followed by the
  records of the first \<open>k\<close> Envelopes together: \<^verbatim>\<open>r.Answer\<close> is appended to and
  never emptied, so a later message repeats the records of the earlier Envelopes.
\<close>

theorem Out_accumulates:
  "map Answer (fst (Out x (\<lambda>w m. (None, f w m)) w q a (map Some xs) closed)) =
   map (\<lambda>k. Answer (SetReply x new_Msg q) @ concat (map RR (take (Suc k) xs))) [0..<length xs]"
  by (simp add: Out_def Let_def Out_loop_accumulates)

theorem Out_accumulates_witness:
  "map Answer (fst (Out (demo [] []) (\<lambda>w m. (None, w @ [m])) [] (demo_msg 42 False []) ''192.0.2.1:53''
      [Some \<lparr>RR = [SOA5, demo_rr TypeA 7], Error = None\<rparr>,
       Some \<lparr>RR = [demo_rr TypeA 8, SOA5], Error = None\<rparr>] True)) =
   [[SOA5, demo_rr TypeA 7], [SOA5, demo_rr TypeA 7, demo_rr TypeA 8, SOA5]]"
  using Out_accumulates [of "demo [] []" "\<lambda>w m. w @ [m]" "[]" "demo_msg 42 False []" "''192.0.2.1:53''"
      "[\<lparr>RR = [SOA5, demo_rr TypeA 7], Error = None\<rparr>, \<lparr>RR = [demo_rr TypeA 8, SOA5], Error = None\<rparr>]" True]
  by (simp add: demo_def new_Msg_def upt_conv_Cons)

text \<open>
  C6. Nothing in a transfer applies the timeouts. The run of \<^verbatim>\<open>InAxfr\<close> and the result
  of \<^verbatim>\<open>WriteMsg\<close> are the same whatever \<open>ReadTimeout\<close> and \<open>WriteTimeout\<close> are
  (they are carried to the final Transfer unread), and no read is given a deadline: when the peer falls silent after
  \<open>n\<close> accepted messages the goroutine waits in the next read, the Envelopes of those
  messages are all the client gets, no Envelope carries an error and the channel stays
  open.
\<close>

theorem timeouts_never_applied:
  "InAxfr x id' (t\<lparr>ReadTimeout := rt, WriteTimeout := wt\<rparr>) =
     (InAxfr x id' t)\<lparr>Final := (Final (InAxfr x id' t))\<lparr>ReadTimeout := rt, WriteTimeout := wt\<rparr>\<rparr> \<and>
   WriteMsg x (t\<lparr>ReadTimeout := rt, WriteTimeout := wt\<rparr>) m =
     (case WriteMsg x t m of (r, t') \<Rightarrow> (r, t'\<lparr>ReadTimeout := rt, WriteTimeout := wt\<rparr>)) \<and>
   (InAxfr_passes x id' n (True, t, []) = Some (first, s, c) \<and> Incoming s = [] \<longrightarrow>
      InAxfr x id' t = \<lparr>Sent = c, ChanClosed = False, Ending = Blocks, Final = s\<rparr>)"
proof (intro conjI impI)
  show "WriteMsg x (t\<lparr>ReadTimeout := rt, WriteTimeout := wt\<rparr>) m =
     (case WriteMsg x t m of (r, t') \<Rightarrow> (r, t'\<lparr>ReadTimeout := rt, WriteTimeout := wt\<rparr>))"
    by (rule WriteMsg_timeouts)
next
  obtain c r t' where l: "InAxfr_loop x id' True t = (c, r, t')"
    by (cases "InAxfr_loop x id' True t") auto
  then show "InAxfr x id' (t\<lparr>ReadTimeout := rt, WriteTimeout := wt\<rparr>) =
     (InAxfr x id' t)\<lparr>Final := (Final (InAxfr x id' t))\<lparr>ReadTimeout := rt, WriteTimeout := wt\<rparr>\<rparr>"
    by (cases r) (simp_all add: InAxfr_def loop_timeouts Close_def)
next
  assume a: "InAxfr_passes x id' n (True, t, []) = Some (first, s, c) \<and> Incoming s = []"
  from passes_loop [of x id' n True t "[]" first s c] a obtain d where
    d: "c = [] @ d"
       "InAxfr_loop x id' True t = (case InAxfr_loop x id' first s of (c', r) \<Rightarrow> (d @ c', r))"
    by auto
  with a show "InAxfr x id' t = \<lparr>Sent = c, ChanClosed = False, Ending = Blocks, Final = s\<rparr>"
    by (simp add: InAxfr_def loop_Blocks)
qed

theorem timeouts_never_applied_witness:
  "InAxfr_passes (demo [] []) 42 (Suc 0)
       (True, (demo_Transfer [([42, 1, 6, 5], None)])\<lparr>ReadTimeout := 10 ^ 9, WriteTimeout := 10 ^ 9\<rparr>, []) =
     Some (False,
           (demo_Transfer [])\<lparr>ReadTimeout := 10 ^ 9, WriteTimeout := 10 ^ 9, tsigTimersOnly := True\<rparr>,
           [\<lparr>RR = [SOA5], Error = None\<rparr>]) \<and>
   InAxfr (demo [] []) 42
       ((demo_Transfer [([42, 1, 6, 5], None)])\<lparr>ReadTimeout := 10 ^ 9, WriteTimeout := 10 ^ 9\<rparr>) =
     \<lparr>Sent = [\<lparr>RR = [SOA5], Error = None\<rparr>], ChanClosed = False, Ending = Blocks,
      Final = (demo_Transfer [])\<lparr>ReadTimeout := 10 ^ 9, WriteTimeout := 10 ^ 9, tsigTimersOnly := True\<rparr>\<rparr>"
  using timeouts_never_applied [where x = "demo [] []" and id' = 42
      and t = "(demo_Transfer [([42, 1, 6, 5], None)])\<lparr>ReadTimeout := 10 ^ 9, WriteTimeout := 10 ^ 9\<rparr>"
      and rt = "10 ^ 9" and wt = "10 ^ 9" and n = "Suc 0" and first = False
      and s = "(demo_Transfer [])\<lparr>ReadTimeout := 10 ^ 9, WriteTimeout := 10 ^ 9, tsigTimersOnly := True\<rparr>"
      and c = "[\<lparr>RR = [SOA5], Error = None\<rparr>]"]
  by (simp add: InAxfr_iter_def InAxfr_rest_def demo_simps)

end
